theory Spec2Isabelle
  imports Complex_Main
begin

section \<open>Values exchanged with the catalogue\<close>

text \<open>
  The downloader is a single Python module. It talks to a CKAN catalogue through a
  \<^verbatim>\<open>requests.Session\<close>, reads JSON, sleeps between retries and writes files. The model
  makes each of these explicit: JSON documents are a datatype, Python exceptions are
  values of \<open>error\<close>, and the effects (requests issued, sleeps, files written) are logged
  in a \<open>world\<close> record that every operation takes and returns.
\<close>

datatype json =
    JNull
  | JBool bool
  | JNum rat
  | JStr string
  | JArr "json list"
  | JObj "(string \<times> json) list"

text \<open>
  \<open>JObj\<close> holds the entries of the parsed Python \<^verbatim>\<open>dict\<close>; \<open>JNull\<close> is Python's
  \<^verbatim>\<open>None\<close>; a number is the rational it denotes, so that \<^verbatim>\<open>1\<close> and \<^verbatim>\<open>1.0\<close> are
  equal, as they are in Python. The exceptions below are all subclasses of \<^verbatim>\<open>Exception\<close>, which is what
  the retry loop's \<^verbatim>\<open>except Exception\<close> catches.
\<close>

datatype error =
    RuntimeError string
  | KeyError string
  | TypeError
  | AttributeError
  | ValueError
  | AssertionError
  | JSONDecodeError
  | RegexError
  | TransportError string

record request =
  url :: string
  params :: "(string \<times> string) list"
  headers :: "(string \<times> string option) list"

text \<open>
  A response as the code reads it: \<^verbatim>\<open>status_code\<close>, the body (\<^verbatim>\<open>text\<close> and
  \<^verbatim>\<open>content\<close>), and what \<^verbatim>\<open>resp.json()\<close> gives on that body (\<open>None\<close> when the body
  is not JSON, where \<^verbatim>\<open>resp.json()\<close> raises).
\<close>

record response =
  status_code :: int
  content :: string
  json_body :: "json option"

record world =
  requests :: "request list"
  sleeps :: "int list"
  files :: "(string \<times> string \<times> string) list"

definition new_world :: world where
  "new_world = \<lparr>requests = [], sleeps = [], files = []\<rparr>"

text \<open>
  The HTTP transport is outside the program. It is a parameter: the outcome of the
  \<open>i\<close>-th call made on the session (counting from 0), given the request, is either an
  exception or a response.
\<close>

type_synonym transport = "nat \<Rightarrow> request \<Rightarrow> error + response"

definition session_get :: "transport \<Rightarrow> request \<Rightarrow> world \<Rightarrow> (error + response) \<times> world" where
  "session_get net req w = (net (length (requests w)) req, w\<lparr>requests := requests w @ [req]\<rparr>)"

text \<open>
  What the session puts on the wire from the \<^verbatim>\<open>headers\<close> argument of a call: the
  \<^verbatim>\<open>requests\<close> library merges it into the session's own headers and removes every key
  whose value is \<^verbatim>\<open>None\<close>, so that an entry without a value sends no header.
\<close>

fun sent_headers :: "(string \<times> string option) list \<Rightarrow> (string \<times> string) list" where
  "sent_headers [] = []"
| "sent_headers ((k, None) # hs) = sent_headers hs"
| "sent_headers ((k, Some v) # hs) = (k, v) # sent_headers hs"

text \<open>\<^verbatim>\<open>time.sleep\<close> rejects a negative duration with \<^verbatim>\<open>ValueError\<close>.\<close>

definition sleep :: "int \<Rightarrow> world \<Rightarrow> (error + unit) \<times> world" where
  "sleep d w = (if d < 0 then (Inl ValueError, w) else (Inr (), w\<lparr>sleeps := sleeps w @ [d]\<rparr>))"

section \<open>Module constants\<close>

definition COCT_CKAN_URL :: string where
  "COCT_CKAN_URL = ''https://cctdata.co.za/data-catalogue''"

definition PACKAGE_LOOKUP_PATH :: string where
  "PACKAGE_LOOKUP_PATH = ''api/action/package_show''"

definition NAME_FIELD :: string where "NAME_FIELD = ''name''"
definition URL_FIELD :: string where "URL_FIELD = ''url''"
definition ID_FIELD :: string where "ID_FIELD = ''id''"
definition RESOURCES_FIELD :: string where "RESOURCES_FIELD = ''resources''"

definition RETRY_DELAY_FACTOR :: int where "RETRY_DELAY_FACTOR = 10"
definition RETRIES :: nat where "RETRIES = 3"

definition API_KEY_HEADER :: string where "API_KEY_HEADER = ''X-CKAN-API-Key''"

section \<open>Python operations on parsed JSON\<close>

text \<open>\<^verbatim>\<open>x[key]\<close> with a string key: only a \<^verbatim>\<open>dict\<close> can answer; a missing key is a
  \<^verbatim>\<open>KeyError\<close>, every other value raises \<^verbatim>\<open>TypeError\<close>.\<close>

fun py_getitem :: "json \<Rightarrow> string \<Rightarrow> error + json" where
  "py_getitem (JObj kvs) k = (case map_of kvs k of None \<Rightarrow> Inl (KeyError k) | Some v \<Rightarrow> Inr v)"
| "py_getitem _ k = Inl TypeError"

text \<open>\<^verbatim>\<open>for x in v\<close>: a list gives its elements, a \<^verbatim>\<open>dict\<close> its keys, a string its
  characters; nothing else is iterable.\<close>

fun py_iter :: "json \<Rightarrow> error + json list" where
  "py_iter (JArr xs) = Inr xs"
| "py_iter (JObj kvs) = Inr (map (\<lambda>kv. JStr (fst kv)) kvs)"
| "py_iter (JStr s) = Inr (map (\<lambda>c. JStr [c]) s)"
| "py_iter _ = Inl TypeError"

text \<open>
  Keys of a Python \<^verbatim>\<open>dict\<close> are compared with \<^verbatim>\<open>==\<close> after hashing: lists and dicts
  are unhashable, and \<^verbatim>\<open>True\<close>/\<^verbatim>\<open>False\<close> are the same keys as \<^verbatim>\<open>1\<close>/\<^verbatim>\<open>0\<close>.
\<close>

datatype pykey = KNone | KNum rat | KStr string

fun py_hash :: "json \<Rightarrow> error + pykey" where
  "py_hash JNull = Inr KNone"
| "py_hash (JBool b) = Inr (KNum (if b then 1 else 0))"
| "py_hash (JNum r) = Inr (KNum r)"
| "py_hash (JStr s) = Inr (KStr s)"
| "py_hash (JArr xs) = Inl TypeError"
| "py_hash (JObj kvs) = Inl TypeError"

text \<open>A \<^verbatim>\<open>dict\<close> in iteration order: assigning to a key that is there replaces its
  value in place, a new key goes to the end.\<close>

type_synonym pydict = "(pykey \<times> json) list"

fun dict_set :: "pydict \<Rightarrow> pykey \<Rightarrow> json \<Rightarrow> pydict" where
  "dict_set [] k v = [(k, v)]"
| "dict_set ((k', v') # d) k v = (if k' = k then (k', v) # d else (k', v') # dict_set d k v)"

fun py_truthy :: "json \<Rightarrow> bool" where
  "py_truthy JNull = False"
| "py_truthy (JBool b) = b"
| "py_truthy (JNum r) = (r \<noteq> 0)"
| "py_truthy (JStr s) = (s \<noteq> [])"
| "py_truthy (JArr xs) = (xs \<noteq> [])"
| "py_truthy (JObj kvs) = (kvs \<noteq> [])"

section \<open>The resource fetcher\<close>

text \<open>
  \<^verbatim>\<open>_get_resource_file\<close>: the loop \<^verbatim>\<open>for t in range(RETRIES)\<close> runs over the list of
  attempt indices and carries \<^verbatim>\<open>last_exception\<close>. A response returns at once; an
  exception is recorded and followed by \<^verbatim>\<open>time.sleep(RETRY_DELAY_FACTOR * (t + 1))\<close>.
  After the loop, \<^verbatim>\<open>raise last_exception\<close> raises the recorded exception
  (\<^verbatim>\<open>raise None\<close> is a \<^verbatim>\<open>TypeError\<close>).
\<close>

fun retry_loop ::
  "transport \<Rightarrow> int \<Rightarrow> request \<Rightarrow> nat list \<Rightarrow> error option \<Rightarrow> world \<Rightarrow> (error + response) \<times> world"
where
  "retry_loop net factor req [] last_exception w =
     (case last_exception of None \<Rightarrow> (Inl TypeError, w) | Some e \<Rightarrow> (Inl e, w))"
| "retry_loop net factor req (t # ts) last_exception w =
     (case session_get net req w of
        (Inr resp, w1) \<Rightarrow> (Inr resp, w1)
      | (Inl e, w1) \<Rightarrow>
          (case sleep (factor * (int t + 1)) w1 of
             (Inl e', w2) \<Rightarrow> (Inl e', w2)
           | (Inr u, w2) \<Rightarrow> retry_loop net factor req ts (Some e) w2))"

definition resource_request :: "string \<Rightarrow> string option \<Rightarrow> request" where
  "resource_request u ckan_api_key =
     \<lparr>url = u, params = [], headers = [(API_KEY_HEADER, ckan_api_key)]\<rparr>"

text \<open>The routine with the two module constants it reads as parameters, and the
  routine itself.\<close>

definition get_resource_file_with ::
  "nat \<Rightarrow> int \<Rightarrow> transport \<Rightarrow> string \<Rightarrow> string option \<Rightarrow> world \<Rightarrow> (error + response) \<times> world"
where
  "get_resource_file_with retries factor net u ckan_api_key w =
     retry_loop net factor (resource_request u ckan_api_key) [0..<retries] None w"

definition get_resource_file ::
  "transport \<Rightarrow> string \<Rightarrow> string option \<Rightarrow> world \<Rightarrow> (error + response) \<times> world"
where
  "get_resource_file = get_resource_file_with RETRIES RETRY_DELAY_FACTOR"

section \<open>The metadata resolver\<close>

definition metadata_request :: "string \<Rightarrow> string option \<Rightarrow> string \<Rightarrow> request" where
  "metadata_request id_str ckan_api_key ckan_url =
     \<lparr>url = ckan_url @ ''/'' @ PACKAGE_LOOKUP_PATH,
      params = [(''id'', id_str)],
      headers = [(API_KEY_HEADER, ckan_api_key)]\<rparr>"

definition not_found_message :: "string \<Rightarrow> string \<Rightarrow> string" where
  "not_found_message id_str ckan_url =
     [CHR 0x27] @ id_str @ [CHR 0x27] @ '' doesn't exist on '' @ ckan_url @ ''!''"

definition resp_json :: "response \<Rightarrow> error + json" where
  "resp_json resp = (case json_body resp of None \<Rightarrow> Inl JSONDecodeError | Some j \<Rightarrow> Inr j)"

text \<open>\<^verbatim>\<open>_get_dataset_metadata\<close>; the result \<open>JNull\<close> is the \<^verbatim>\<open>None\<close> of the last branch.
  The two logging calls of that branch have no effect on the result.\<close>

definition get_dataset_metadata ::
  "transport \<Rightarrow> string \<Rightarrow> string option \<Rightarrow> string \<Rightarrow> world \<Rightarrow> (error + json) \<times> world"
where
  "get_dataset_metadata net id_str ckan_api_key ckan_url w =
     (case session_get net (metadata_request id_str ckan_api_key ckan_url) w of
        (Inl e, w1) \<Rightarrow> (Inl e, w1)
      | (Inr resp, w1) \<Rightarrow>
          if status_code resp = 200 then
            (case resp_json resp of
               Inl e \<Rightarrow> (Inl e, w1)
             | Inr body \<Rightarrow> (py_getitem body ''result'', w1))
          else if status_code resp = 404 then
            (Inl (RuntimeError (not_found_message id_str ckan_url)), w1)
          else (Inr JNull, w1))"

definition unknown_message :: "string \<Rightarrow> string" where
  "unknown_message dataset_name =
     ''I don't know what to do with '' @ [CHR 0x27] @ dataset_name @ [CHR 0x27]
       @ '' - it doesn't exist''"

text \<open>The dictionary comprehension of \<^verbatim>\<open>_form_dataset_resources_lookup\<close>: for each
  resource the key expression is evaluated before the value expression, then the pair
  is stored.\<close>

fun resources_comprehension :: "json list \<Rightarrow> pydict \<Rightarrow> error + pydict" where
  "resources_comprehension [] d = Inr d"
| "resources_comprehension (resource # rest) d =
     (case py_getitem resource NAME_FIELD of
        Inl e \<Rightarrow> Inl e
      | Inr n \<Rightarrow>
          (case py_getitem resource URL_FIELD of
             Inl e \<Rightarrow> Inl e
           | Inr u \<Rightarrow>
               (case py_hash n of
                  Inl e \<Rightarrow> Inl e
                | Inr k \<Rightarrow> resources_comprehension rest (dict_set d k u))))"

definition form_dataset_resources_lookup ::
  "transport \<Rightarrow> string \<Rightarrow> string option \<Rightarrow> string \<Rightarrow> world \<Rightarrow> (error + pydict) \<times> world"
where
  "form_dataset_resources_lookup net dataset_name ckan_api_key ckan_url w =
     (case get_dataset_metadata net dataset_name ckan_api_key ckan_url w of
        (Inl e, w1) \<Rightarrow> (Inl e, w1)
      | (Inr dataset_metadata, w1) \<Rightarrow>
          if dataset_metadata = JNull then
            (Inl (RuntimeError (unknown_message dataset_name)), w1)
          else
            (case py_getitem dataset_metadata RESOURCES_FIELD of
               Inl e \<Rightarrow> (Inl e, w1)
             | Inr rs \<Rightarrow>
                 (case py_iter rs of
                    Inl e \<Rightarrow> (Inl e, w1)
                  | Inr resources \<Rightarrow> (resources_comprehension resources [], w1))))"

section \<open>The command-line program\<close>

text \<open>
  The parsed command line, and the library functions the program calls besides the
  transport: \<^verbatim>\<open>re.compile\<close> (a compiled pattern is represented by its \<^verbatim>\<open>search\<close>
  test), \<^verbatim>\<open>pathlib.Path(urllib.parse.urlparse(u).path).name\<close> on a string, and
  \<^verbatim>\<open>Path.exists\<close>. Argument parsing, logging and the progress bar are not modelled.
\<close>

record args =
  dataset_id :: string
  ckan_api_key :: "string option"
  ckan_url :: string
  resource_name_regex :: "string option"
  destination_dir :: string

record platform =
  re_compile :: "string \<Rightarrow> error + (string \<Rightarrow> bool)"
  url_path_name :: "string \<Rightarrow> error + string"
  dir_exists :: "string \<Rightarrow> bool"

text \<open>\<^verbatim>\<open>re.compile(args.resource_name_regex) if args.resource_name_regex else None\<close>:
  an empty pattern is falsy and gives no filter.\<close>

definition compile_filter :: "platform \<Rightarrow> string option \<Rightarrow> error + (string \<Rightarrow> bool) option" where
  "compile_filter p rx =
     (case rx of
        None \<Rightarrow> Inr None
      | Some s \<Rightarrow>
          if s = [] then Inr None
          else (case re_compile p s of Inl e \<Rightarrow> Inl e | Inr pat \<Rightarrow> Inr (Some pat)))"

text \<open>The condition
  \<^verbatim>\<open>(filter_regex and filter_regex.search(resource_name)) or not filter_regex\<close>;
  \<^verbatim>\<open>search\<close> raises \<^verbatim>\<open>TypeError\<close> on a name that is not a string.\<close>

fun keeps :: "(string \<Rightarrow> bool) option \<Rightarrow> pykey \<Rightarrow> error + bool" where
  "keeps None k = Inr True"
| "keeps (Some pat) (KStr s) = Inr (pat s)"
| "keeps (Some pat) k = Inl TypeError"

fun resource_list :: "(string \<Rightarrow> bool) option \<Rightarrow> pydict \<Rightarrow> error + pydict" where
  "resource_list filter_regex [] = Inr []"
| "resource_list filter_regex ((resource_name, resource_url) # rest) =
     (case keeps filter_regex resource_name of
        Inl e \<Rightarrow> Inl e
      | Inr b \<Rightarrow>
          (case resource_list filter_regex rest of
             Inl e \<Rightarrow> Inl e
           | Inr xs \<Rightarrow> Inr (if b then (resource_name, resource_url) # xs else xs)))"

text \<open>The two statements that assemble the list of resources to download.\<close>

definition filtered_resources :: "platform \<Rightarrow> string option \<Rightarrow> pydict \<Rightarrow> error + pydict" where
  "filtered_resources p rx resources_dict =
     (case compile_filter p rx of
        Inl e \<Rightarrow> Inl e
      | Inr filter_regex \<Rightarrow> resource_list filter_regex resources_dict)"

text \<open>
  The generator and the loop consuming it: per resource, the file name is derived from
  the URL, the file is fetched, the status is asserted to be 200 and the body is written
  under the destination directory. A URL that is not a string is rejected where the file
  name is derived (\<^verbatim>\<open>urlparse\<close> calls \<^verbatim>\<open>decode\<close> on a truthy value, and \<^verbatim>\<open>Path\<close>
  refuses the bytes path it gets from a falsy one). Failures of the file system while
  writing are not modelled.
\<close>

fun download_all ::
  "transport \<Rightarrow> platform \<Rightarrow> string option \<Rightarrow> string \<Rightarrow> pydict \<Rightarrow> world \<Rightarrow> (error + unit) \<times> world"
where
  "download_all net p api_key local_dir [] w = (Inr (), w)"
| "download_all net p api_key local_dir ((resource_name, resource_url) # rest) w =
     (case resource_url of
        JStr s \<Rightarrow>
          (case url_path_name p s of
             Inl e \<Rightarrow> (Inl e, w)
           | Inr filename \<Rightarrow>
               (case get_resource_file net s api_key w of
                  (Inl e, w1) \<Rightarrow> (Inl e, w1)
                | (Inr http_resp, w1) \<Rightarrow>
                    if status_code http_resp \<noteq> 200 then (Inl AssertionError, w1)
                    else download_all net p api_key local_dir rest
                           (w1\<lparr>files := files w1 @ [(local_dir, filename, content http_resp)]\<rparr>)))
      | _ \<Rightarrow> (Inl (if py_truthy resource_url then AttributeError else TypeError), w))"

text \<open>The program body after argument parsing; it opens a fresh session.\<close>

definition main :: "transport \<Rightarrow> platform \<Rightarrow> args \<Rightarrow> (error + unit) \<times> world" where
  "main net p a =
     (if \<not> dir_exists p (destination_dir a) then (Inl AssertionError, new_world)
      else
        (case form_dataset_resources_lookup net (dataset_id a) (ckan_api_key a) (ckan_url a)
                new_world of
           (Inl e, w1) \<Rightarrow> (Inl e, w1)
         | (Inr resources_dict, w1) \<Rightarrow>
             (case filtered_resources p (resource_name_regex a) resources_dict of
                Inl e \<Rightarrow> (Inl e, w1)
              | Inr rl \<Rightarrow> download_all net p (ckan_api_key a) (destination_dir a) rl w1)))"

section \<open>Test fixtures\<close>

text \<open>A transport that answers the \<open>i\<close>-th call with the \<open>i\<close>-th entry of a script.\<close>

definition scripted :: "(error + response) list \<Rightarrow> transport" where
  "scripted outcomes i req =
     (if i < length outcomes then outcomes ! i else Inl (TransportError ''script exhausted''))"

definition ok_response :: "int \<Rightarrow> string \<Rightarrow> response" where
  "ok_response code body = \<lparr>status_code = code, content = body, json_body = None\<rparr>"

definition json_response :: "int \<Rightarrow> json \<Rightarrow> response" where
  "json_response code j = \<lparr>status_code = code, content = [], json_body = Some j\<rparr>"

definition always_down :: transport where
  "always_down i req = Inl (TransportError ''connection refused'')"

definition three_failures :: "(error + response) list" where
  "three_failures =
     [Inl (TransportError ''first''), Inl (TransportError ''second''), Inl (TransportError ''third'')]"

definition two_failures_then_500 :: "(error + response) list" where
  "two_failures_then_500 =
     [Inl (TransportError ''first''), Inl (TransportError ''second''),
      Inr (ok_response 500 ''Internal Server Error'')]"

definition timeout_then_500 :: "(error + response) list" where
  "timeout_then_500 =
     [Inl (TransportError ''timed out''), Inr (ok_response 500 ''Internal Server Error'')]"

text \<open>A stand-in for \<^verbatim>\<open>re.compile\<close> that understands the patterns \<^verbatim>\<open>^literal\<close> only, a
  stand-in for the file name of a URL, and a platform made of them.\<close>

definition anchored_literal :: "string \<Rightarrow> error + (string \<Rightarrow> bool)" where
  "anchored_literal pat =
     (case pat of
        [] \<Rightarrow> Inl RegexError
      | c # lit \<Rightarrow> if c = CHR ''^'' then Inr (\<lambda>s. take (length lit) s = lit) else Inl RegexError)"

definition last_segment :: "string \<Rightarrow> error + string" where
  "last_segment u = Inr (rev (takeWhile (\<lambda>c. c \<noteq> CHR ''/'') (rev u)))"

definition test_platform :: platform where
  "test_platform =
     \<lparr>re_compile = anchored_literal, url_path_name = last_segment, dir_exists = (\<lambda>d. True)\<rparr>"

text \<open>Command lines, scripts and documents used as concrete inputs.\<close>

definition test_args :: args where
  "test_args =
     \<lparr>dataset_id = ''billed-consumption-data'', ckan_api_key = None, ckan_url = COCT_CKAN_URL,
      resource_name_regex = None, destination_dir = ''.''\<rparr>"

definition not_found_script :: "(error + response) list" where
  "not_found_script = [Inr (ok_response 404 ''Not found'')]"

definition server_error_script :: "(error + response) list" where
  "server_error_script = [Inr (ok_response 500 ''<html>Internal Server Error</html>'')]"

definition example_resources :: "json list" where
  "example_resources =
     [JObj [(''id'', JStr ''r1''), (''name'', JStr ''a''), (''url'', JStr ''http://x/a.csv'')],
      JObj [(''id'', JStr ''r2''), (''name'', JStr ''b-report''), (''url'', JStr ''http://x/b.csv'')],
      JObj [(''id'', JStr ''r3''), (''name'', JStr ''a''), (''url'', JStr ''http://x/c.csv'')]]"

definition example_body :: json where
  "example_body =
     JObj [(''success'', JBool True),
           (''result'', JObj [(''name'', JStr ''billed-consumption-data''),
                              (''resources'', JArr example_resources)])]"

definition body_without_result :: json where
  "body_without_result = JObj [(''success'', JBool False)]"

definition body_with_nameless_resource :: json where
  "body_with_nameless_resource =
     JObj [(''result'', JObj [(''resources'',
        JArr [JObj [(''name'', JStr ''a''), (''url'', JStr ''http://x/a.csv'')],
              JObj [(''id'', JStr ''r2''), (''url'', JStr ''http://x/b.csv'')]])])]"

definition example_mapping :: pydict where
  "example_mapping =
     [(KStr ''a'', JStr ''http://x/a.csv''), (KStr ''b-report'', JStr ''http://x/b.csv''),
      (KStr ''ab'', JStr ''http://x/c.csv'')]"

section \<open>The retry loop\<close>

text \<open>What the loop does when every attempt raises, when the attempt at index \<open>k\<close> is the
  first to complete, and which requests it issues in any case.\<close>

lemma retry_loop_all_fail:
  assumes "0 \<le> factor"
    and "\<forall>i<length ts. net (length (requests w) + i) req = Inl (e i)"
  shows "retry_loop net factor req ts last_exception w =
     (Inl (case ts of [] \<Rightarrow> (case last_exception of None \<Rightarrow> TypeError | Some x \<Rightarrow> x)
           | _ \<Rightarrow> e (length ts - 1)),
      w\<lparr>requests := requests w @ replicate (length ts) req,
        sleeps := sleeps w @ map (\<lambda>t. factor * (int t + 1)) ts\<rparr>)"
  using assms
proof (induction ts arbitrary: w e last_exception)
  case Nil
  then show ?case by (simp split: option.splits)
next
  case (Cons t ts)
  from Cons.prems(2) have first: "net (length (requests w)) req = Inl (e 0)"
    by force
  let ?w2 = "w\<lparr>requests := requests w @ [req], sleeps := sleeps w @ [factor * (int t + 1)]\<rparr>"
  have nonneg: "\<not> factor * (int t + 1) < 0"
    using Cons.prems(1) by (simp add: not_less)
  have rest: "\<forall>i<length ts. net (length (requests ?w2) + i) req = Inl ((e \<circ> Suc) i)"
    using Cons.prems(2) by force
  have step: "retry_loop net factor req (t # ts) last_exception w =
              retry_loop net factor req ts (Some (e 0)) ?w2"
    using first nonneg by (simp add: session_get_def sleep_def)
  show ?case
    unfolding step Cons.IH [OF Cons.prems(1) rest]
    by (cases ts) (simp_all add: replicate_app_Cons_same)
qed

lemma retry_loop_success:
  assumes "0 \<le> factor"
    and "k < length ts"
    and "\<forall>i<k. net (length (requests w) + i) req = Inl (e i)"
    and "net (length (requests w) + k) req = Inr resp"
  shows "retry_loop net factor req ts last_exception w =
     (Inr resp,
      w\<lparr>requests := requests w @ replicate (Suc k) req,
        sleeps := sleeps w @ map (\<lambda>t. factor * (int t + 1)) (take k ts)\<rparr>)"
  using assms
proof (induction ts arbitrary: w e k last_exception)
  case Nil
  then show ?case by simp
next
  case (Cons t ts)
  show ?case
  proof (cases k)
    case 0
    with Cons.prems(4) show ?thesis
      by (simp add: session_get_def)
  next
    case (Suc j)
    from Cons.prems(3) Suc have first: "net (length (requests w)) req = Inl (e 0)"
      by force
    let ?w2 = "w\<lparr>requests := requests w @ [req], sleeps := sleeps w @ [factor * (int t + 1)]\<rparr>"
    have nonneg: "\<not> factor * (int t + 1) < 0"
      using Cons.prems(1) by (simp add: not_less)
    have j: "j < length ts" using Cons.prems(2) Suc by simp
    have rest: "\<forall>i<j. net (length (requests ?w2) + i) req = Inl ((e \<circ> Suc) i)"
      using Cons.prems(3) Suc by force
    have hit: "net (length (requests ?w2) + j) req = Inr resp"
      using Cons.prems(4) Suc by simp
    have step: "retry_loop net factor req (t # ts) last_exception w =
                retry_loop net factor req ts (Some (e 0)) ?w2"
      using first nonneg by (simp add: session_get_def sleep_def)
    show ?thesis
      unfolding step Cons.IH [OF Cons.prems(1) j rest hit]
      by (simp add: Suc replicate_app_Cons_same)
  qed
qed

lemma retry_loop_requests:
  "\<exists>n\<le>length ts. requests (snd (retry_loop net factor req ts last_exception w)) =
       requests w @ replicate n req"
proof (induction ts arbitrary: w last_exception)
  case Nil
  then show ?case by (simp split: option.splits)
next
  case (Cons t ts)
  show ?case
  proof (cases "net (length (requests w)) req")
    case (Inr resp)
    then have "requests (snd (retry_loop net factor req (t # ts) last_exception w)) =
               requests w @ replicate 1 req"
      by (simp add: session_get_def)
    then show ?thesis by (intro exI [of _ 1]) simp
  next
    case (Inl e)
    show ?thesis
    proof (cases "factor * (int t + 1) < 0")
      case True
      with Inl have "requests (snd (retry_loop net factor req (t # ts) last_exception w)) =
               requests w @ replicate 1 req"
        by (simp add: session_get_def sleep_def)
      then show ?thesis by (intro exI [of _ 1]) simp
    next
      case False
      let ?w2 = "w\<lparr>requests := requests w @ [req], sleeps := sleeps w @ [factor * (int t + 1)]\<rparr>"
      from Inl False have step: "retry_loop net factor req (t # ts) last_exception w =
                retry_loop net factor req ts (Some e) ?w2"
        by (simp add: session_get_def sleep_def)
      from Cons.IH [of "Some e" ?w2] obtain n where
        n: "n \<le> length ts"
        "requests (snd (retry_loop net factor req ts (Some e) ?w2)) = requests ?w2 @ replicate n req"
        by blast
      then have "requests (snd (retry_loop net factor req (t # ts) last_exception w)) =
               requests w @ replicate (Suc n) req"
        unfolding step by (simp add: replicate_app_Cons_same)
      with n(1) show ?thesis by (intro exI [of _ "Suc n"]) simp
    qed
  qed
qed

lemma get_resource_file_with_requests:
  "\<exists>n\<le>retries. requests (snd (get_resource_file_with retries factor net u key w)) =
       requests w @ replicate n (resource_request u key)"
  using retry_loop_requests [of "[0..<retries]" net factor "resource_request u key" None w]
  by (simp add: get_resource_file_with_def)

section \<open>Claims about the resource fetcher\<close>

text \<open>
  Claim C1, as the code has it. When every one of the \<open>retries\<close> attempts raises, the
  fetcher issues \<open>retries\<close> requests and sleeps after every failed attempt, the last one
  included: the sleeps are \<open>factor * (t + 1)\<close> for \<open>t\<close> from 0 to \<open>retries - 1\<close>, so
  there are \<open>retries\<close> of them, and then the routine fails.
\<close>

theorem fetch_all_fail_sleeps_after_every_attempt:
  assumes "0 \<le> factor"
    and "\<forall>t<retries. net (length (requests w) + t) (resource_request u key) = Inl (e t)"
  shows "isl (fst (get_resource_file_with retries factor net u key w)) \<and>
    requests (snd (get_resource_file_with retries factor net u key w)) =
      requests w @ replicate retries (resource_request u key) \<and>
    sleeps (snd (get_resource_file_with retries factor net u key w)) =
      sleeps w @ map (\<lambda>t. factor * (int t + 1)) [0..<retries] \<and>
    length (sleeps (snd (get_resource_file_with retries factor net u key w))) =
      length (sleeps w) + retries"
proof -
  have "\<forall>i<length [0..<retries].
          net (length (requests w) + i) (resource_request u key) = Inl (e i)"
    using assms(2) by simp
  from retry_loop_all_fail [where ts = "[0..<retries]" and e = e and last_exception = None and net = net
        and w = w and req = "resource_request u key" and factor = factor,
      OF assms(1) this]
  show ?thesis
    by (simp add: get_resource_file_with_def)
qed

theorem fetch_all_fail_sleeps_witness:
  "sleeps (snd (get_resource_file always_down ''http://x/a.csv'' None new_world)) = [10, 20, 30] \<and>
   length (requests (snd (get_resource_file always_down ''http://x/a.csv'' None new_world))) = 3"
  using fetch_all_fail_sleeps_after_every_attempt
    [of 10 3 always_down new_world "''http://x/a.csv''" None "\<lambda>t. TransportError ''connection refused''"]
  by (simp add: get_resource_file_def RETRIES_def RETRY_DELAY_FACTOR_def always_down_def
      new_world_def upt_rec numeral_3_eq_3)

text \<open>
  Claim C1 as stated says that the final failed attempt is not followed by a sleep, so
  that three failing attempts give two sleeps. With the module's constants and a
  transport that is always down, the sleeps are 10, 20 and 30 seconds: three, not two.
\<close>

theorem fetch_final_attempt_sleep_counterexample:
  "sleeps (snd (get_resource_file always_down ''http://x/a.csv'' None new_world)) = [10, 20, 30] \<and>
   length (sleeps (snd (get_resource_file always_down ''http://x/a.csv'' None new_world))) \<noteq> RETRIES - 1"
  by (simp add: get_resource_file_def get_resource_file_with_def RETRIES_def RETRY_DELAY_FACTOR_def
      always_down_def new_world_def upt_rec numeral_3_eq_3 session_get_def sleep_def)

text \<open>
  Claim C3. When every attempt raises, the exception that the fetcher raises is the one
  of the last attempt, at index \<open>retries - 1\<close>.
\<close>

theorem fetch_raises_last_exception:
  assumes "0 < retries" and "0 \<le> factor"
    and "\<forall>t<retries. net (length (requests w) + t) (resource_request u key) = Inl (e t)"
  shows "fst (get_resource_file_with retries factor net u key w) = Inl (e (retries - 1))"
proof -
  have "\<forall>i<length [0..<retries].
          net (length (requests w) + i) (resource_request u key) = Inl (e i)"
    using assms(3) by simp
  from retry_loop_all_fail [where ts = "[0..<retries]" and e = e and last_exception = None and net = net
        and w = w and req = "resource_request u key" and factor = factor,
      OF assms(2) this] assms(1)
  show ?thesis
    by (simp add: get_resource_file_with_def list.case_eq_if)
qed

theorem fetch_raises_last_exception_witness:
  "fst (get_resource_file (scripted three_failures) ''http://x/a.csv'' None new_world) =
     Inl (TransportError ''third'')"
  using fetch_raises_last_exception
    [of 3 10 "scripted three_failures" new_world "''http://x/a.csv''" None
        "\<lambda>t. projl (three_failures ! t)"]
  by (simp add: get_resource_file_def RETRIES_def RETRY_DELAY_FACTOR_def scripted_def
      three_failures_def new_world_def numeral_3_eq_3 less_Suc_eq)

text \<open>
  Claim C4. With three attempts allowed, a transport that fails on the first two and
  completes on the third makes the fetcher return that response after three requests
  and exactly two sleeps, of \<open>factor * 1\<close> and then \<open>factor * 2\<close> seconds.
\<close>

theorem fetch_succeeds_on_third_attempt:
  assumes "0 \<le> factor"
    and "net (length (requests w)) (resource_request u key) = Inl e0"
    and "net (length (requests w) + 1) (resource_request u key) = Inl e1"
    and "net (length (requests w) + 2) (resource_request u key) = Inr resp"
  shows "get_resource_file_with 3 factor net u key w =
    (Inr resp,
     w\<lparr>requests := requests w @ replicate 3 (resource_request u key),
       sleeps := sleeps w @ [factor * 1, factor * 2]\<rparr>)"
proof -
  have fails: "\<forall>i<2. net (length (requests w) + i) (resource_request u key) =
                 Inl ((\<lambda>i. if i = 0 then e0 else e1) i)"
    using assms(2,3) by (simp add: numeral_2_eq_2 less_Suc_eq)
  have len: "2 < length [0..<3::nat]" by simp
  from retry_loop_success [where ts = "[0..<3]" and k = 2 and net = net and w = w
      and req = "resource_request u key" and factor = factor and resp = resp
      and e = "\<lambda>i. if i = 0 then e0 else e1" and last_exception = None,
      OF assms(1) len fails assms(4)]
  show ?thesis
    by (simp add: get_resource_file_with_def numeral_3_eq_3 numeral_2_eq_2 upt_rec)
qed

theorem fetch_succeeds_on_third_attempt_witness:
  "get_resource_file (scripted two_failures_then_500) ''http://x/a.csv'' (Some ''secret'') new_world =
    (Inr (ok_response 500 ''Internal Server Error''),
     \<lparr>requests = replicate 3 (resource_request ''http://x/a.csv'' (Some ''secret'')),
      sleeps = [10, 20], files = []\<rparr>)"
  using fetch_succeeds_on_third_attempt
    [of 10 "scripted two_failures_then_500" new_world "''http://x/a.csv''" "Some ''secret''"
        "TransportError ''first''" "TransportError ''second''"
        "ok_response 500 ''Internal Server Error''"]
  by (simp add: get_resource_file_def RETRIES_def RETRY_DELAY_FACTOR_def scripted_def
      two_failures_then_500_def new_world_def)

text \<open>
  Claim C7. The first attempt that completes at the transport level is returned as it
  is, whatever its status code, and no request follows it: the number of requests is one
  more than the number of attempts that raised.
\<close>

theorem fetch_returns_first_completed_attempt:
  assumes "0 \<le> factor" and "k < retries"
    and "\<forall>i<k. net (length (requests w) + i) (resource_request u key) = Inl (e i)"
    and "net (length (requests w) + k) (resource_request u key) = Inr resp"
  shows "fst (get_resource_file_with retries factor net u key w) = Inr resp \<and>
    requests (snd (get_resource_file_with retries factor net u key w)) =
      requests w @ replicate (Suc k) (resource_request u key)"
proof -
  have len: "k < length [0..<retries]" using assms(2) by simp
  from retry_loop_success [where ts = "[0..<retries]" and k = k and net = net and w = w
      and req = "resource_request u key" and factor = factor and resp = resp
      and e = e and last_exception = None,
      OF assms(1) len assms(3) assms(4)]
  show ?thesis
    by (simp add: get_resource_file_with_def)
qed

theorem fetch_returns_first_completed_attempt_witness:
  "fst (get_resource_file (scripted timeout_then_500) ''http://x/a.csv'' None new_world) =
     Inr (ok_response 500 ''Internal Server Error'') \<and>
   requests (snd (get_resource_file (scripted timeout_then_500) ''http://x/a.csv'' None new_world)) =
     [resource_request ''http://x/a.csv'' None, resource_request ''http://x/a.csv'' None]"
  using fetch_returns_first_completed_attempt
    [of 10 1 3 "scripted timeout_then_500" new_world "''http://x/a.csv''" None
        "\<lambda>i. TransportError ''timed out''" "ok_response 500 ''Internal Server Error''"]
  by (simp add: get_resource_file_def RETRIES_def RETRY_DELAY_FACTOR_def scripted_def
      timeout_then_500_def new_world_def)

section \<open>The dictionary of resources\<close>

lemma get_dataset_metadata_requests:
  "requests (snd (get_dataset_metadata net ident key cat w)) =
     requests w @ [metadata_request ident key cat]"
  by (simp add: get_dataset_metadata_def session_get_def split: sum.splits)

lemma map_of_dict_set: "map_of (dict_set d k v) = (map_of d)(k \<mapsto> v)"
  by (induction d k v rule: dict_set.induct) auto

lemma keys_dict_set: "fst ` set (dict_set d k v) = insert k (fst ` set d)"
  by (induction d k v rule: dict_set.induct) auto

lemma distinct_dict_set: "distinct (map fst d) \<Longrightarrow> distinct (map fst (dict_set d k v))"
  by (induction d k v rule: dict_set.induct) (auto simp: keys_dict_set)

text \<open>On descriptors that all carry a string name and a string URL, the comprehension
  stores the pairs one after the other: the keys are the names, and a name keeps the URL
  of its last descriptor.\<close>

lemma resources_comprehension_well_formed:
  assumes "\<forall>i<length rs. py_getitem (rs ! i) NAME_FIELD = Inr (JStr (name i)) \<and>
                         py_getitem (rs ! i) URL_FIELD = Inr (JStr (link i))"
  shows "\<exists>d'. resources_comprehension rs d = Inr d' \<and>
      fst ` set d' = fst ` set d \<union> (\<lambda>i. KStr (name i)) ` {..<length rs} \<and>
      (distinct (map fst d) \<longrightarrow> distinct (map fst d')) \<and>
      (\<forall>i<length rs. (\<forall>j<length rs. i < j \<longrightarrow> name j \<noteq> name i) \<longrightarrow>
          map_of d' (KStr (name i)) = Some (JStr (link i))) \<and>
      (\<forall>k. k \<notin> (\<lambda>i. KStr (name i)) ` {..<length rs} \<longrightarrow> map_of d' k = map_of d k)"
  using assms
proof (induction rs arbitrary: d name link)
  case Nil
  then show ?case by simp
next
  case (Cons r rs)
  from Cons.prems have head: "py_getitem r NAME_FIELD = Inr (JStr (name 0))"
      "py_getitem r URL_FIELD = Inr (JStr (link 0))"
    by force+
  let ?d1 = "dict_set d (KStr (name 0)) (JStr (link 0))"
  have tail: "\<forall>i<length rs. py_getitem (rs ! i) NAME_FIELD = Inr (JStr ((name \<circ> Suc) i)) \<and>
                         py_getitem (rs ! i) URL_FIELD = Inr (JStr ((link \<circ> Suc) i))"
    using Cons.prems by force
  from Cons.IH [OF tail, of ?d1] obtain d' where
    run: "resources_comprehension rs ?d1 = Inr d'"
    and keys: "fst ` set d' = fst ` set ?d1 \<union> (\<lambda>i. KStr ((name \<circ> Suc) i)) ` {..<length rs}"
    and dist: "distinct (map fst ?d1) \<longrightarrow> distinct (map fst d')"
    and last: "\<forall>i<length rs. (\<forall>j<length rs. i < j \<longrightarrow> (name \<circ> Suc) j \<noteq> (name \<circ> Suc) i) \<longrightarrow>
          map_of d' (KStr ((name \<circ> Suc) i)) = Some (JStr ((link \<circ> Suc) i))"
    and other: "\<forall>k. k \<notin> (\<lambda>i. KStr ((name \<circ> Suc) i)) ` {..<length rs} \<longrightarrow> map_of d' k = map_of ?d1 k"
    by blast
  have step: "resources_comprehension (r # rs) d = Inr d'"
    using head run by simp
  have idx: "(\<lambda>i. KStr (name i)) ` {..<length (r # rs)} =
             insert (KStr (name 0)) ((\<lambda>i. KStr ((name \<circ> Suc) i)) ` {..<length rs})"
    by (auto simp: image_iff lessThan_Suc_eq_insert_0)
  have k1: "fst ` set d' = fst ` set d \<union> (\<lambda>i. KStr (name i)) ` {..<length (r # rs)}"
    unfolding idx keys keys_dict_set by blast
  have k2: "distinct (map fst d) \<longrightarrow> distinct (map fst d')"
    using dist distinct_dict_set by blast
  have k3: "map_of d' (KStr (name i)) = Some (JStr (link i))"
    if i: "i < length (r # rs)" and latest: "\<forall>j<length (r # rs). i < j \<longrightarrow> name j \<noteq> name i" for i
  proof (cases i)
    case 0
    have "KStr (name 0) \<notin> (\<lambda>i. KStr ((name \<circ> Suc) i)) ` {..<length rs}"
      using latest 0 by fastforce
    with other have "map_of d' (KStr (name 0)) = map_of ?d1 (KStr (name 0))"
      by blast
    then show ?thesis
      using 0 by (simp add: map_of_dict_set)
  next
    case (Suc m)
    have "m < length rs" using i Suc by simp
    moreover have "\<forall>j<length rs. m < j \<longrightarrow> (name \<circ> Suc) j \<noteq> (name \<circ> Suc) m"
      using latest Suc by fastforce
    ultimately show ?thesis
      using last Suc by simp
  qed
  have k4: "map_of d' k = map_of d k" if "k \<notin> (\<lambda>i. KStr (name i)) ` {..<length (r # rs)}" for k
  proof -
    from that have a: "k \<noteq> KStr (name 0)"
      and b: "k \<notin> (\<lambda>i. KStr ((name \<circ> Suc) i)) ` {..<length rs}"
      unfolding idx by simp_all
    from other b have "map_of d' k = map_of ?d1 k" by blast
    with a show ?thesis by (simp add: map_of_dict_set)
  qed
  from step k1 k2 k3 k4 show ?case by blast
qed

text \<open>On descriptors of which one lacks its name or its URL, the comprehension stops
  with the \<^verbatim>\<open>KeyError\<close> of the first such descriptor.\<close>

lemma resources_comprehension_missing_field:
  assumes "\<forall>r\<in>set rs. \<exists>fields. r = JObj fields"
    and "\<forall>r\<in>set rs. \<forall>n. py_getitem r NAME_FIELD = Inr n \<longrightarrow> (\<exists>s. n = JStr s)"
    and "\<exists>r\<in>set rs. py_getitem r NAME_FIELD = Inl (KeyError NAME_FIELD) \<or>
                     py_getitem r URL_FIELD = Inl (KeyError URL_FIELD)"
  shows "resources_comprehension rs d = Inl (KeyError NAME_FIELD) \<or>
         resources_comprehension rs d = Inl (KeyError URL_FIELD)"
  using assms
proof (induction rs arbitrary: d)
  case Nil
  then show ?case by simp
next
  case (Cons r rs)
  from Cons.prems(1) obtain fields where r: "r = JObj fields" by auto
  show ?case
  proof (cases "map_of fields NAME_FIELD")
    case None
    then show ?thesis by (simp add: r)
  next
    case (Some n)
    then have "py_getitem r NAME_FIELD = Inr n" by (simp add: r)
    with Cons.prems(2) obtain s where n: "n = JStr s" by auto
    show ?thesis
    proof (cases "map_of fields URL_FIELD")
      case None
      with Some show ?thesis by (simp add: r)
    next
      case u: (Some u)
      have complete: "\<not> (py_getitem r NAME_FIELD = Inl (KeyError NAME_FIELD) \<or>
                     py_getitem r URL_FIELD = Inl (KeyError URL_FIELD))"
        using Some u by (simp add: r)
      have step: "resources_comprehension (r # rs) d =
                  resources_comprehension rs (dict_set d (KStr s) u)"
        using Some u n by (simp add: r)
      have "\<exists>r\<in>set rs. py_getitem r NAME_FIELD = Inl (KeyError NAME_FIELD) \<or>
                     py_getitem r URL_FIELD = Inl (KeyError URL_FIELD)"
        using Cons.prems(3) complete by auto
      with Cons.IH [of "dict_set d (KStr s) u"] Cons.prems(1,2) show ?thesis
        unfolding step by simp
    qed
  qed
qed

section \<open>Claims about the metadata resolver\<close>

text \<open>
  Claim C2. When the metadata request is answered with status 200 and a document whose
  \<open>result\<close> holds a \<open>resources\<close> array of descriptors, each with a string name and a
  string URL, the resolver returns a mapping whose keys are exactly the names of the
  descriptors, and every name is mapped to the URL of the last descriptor that carries
  it: no error is raised on a repeated name.
\<close>

theorem resolve_mapping_keys_and_last_write_wins:
  assumes "net (length (requests w)) (metadata_request ident key cat) = Inr resp"
    and "status_code resp = 200"
    and "json_body resp = Some body"
    and "py_getitem body ''result'' = Inr meta"
    and "py_getitem meta RESOURCES_FIELD = Inr (JArr rs)"
    and "\<forall>i<length rs. py_getitem (rs ! i) NAME_FIELD = Inr (JStr (name i)) \<and>
                         py_getitem (rs ! i) URL_FIELD = Inr (JStr (link i))"
  shows "\<exists>d. form_dataset_resources_lookup net ident key cat w =
          (Inr d, w\<lparr>requests := requests w @ [metadata_request ident key cat]\<rparr>) \<and>
      fst ` set d = (\<lambda>i. KStr (name i)) ` {..<length rs} \<and>
      distinct (map fst d) \<and>
      (\<forall>i<length rs. (\<forall>j<length rs. i < j \<longrightarrow> name j \<noteq> name i) \<longrightarrow>
          map_of d (KStr (name i)) = Some (JStr (link i)))"
proof -
  have meta: "get_dataset_metadata net ident key cat w =
      (Inr meta, w\<lparr>requests := requests w @ [metadata_request ident key cat]\<rparr>)"
    using assms(1-4) by (simp add: get_dataset_metadata_def session_get_def resp_json_def)
  have present: "meta \<noteq> JNull"
    using assms(5) by auto
  from resources_comprehension_well_formed [OF assms(6), of "[]"] obtain d where
    d: "resources_comprehension rs [] = Inr d"
      "fst ` set d = (\<lambda>i. KStr (name i)) ` {..<length rs}"
      "distinct (map fst d)"
      "\<forall>i<length rs. (\<forall>j<length rs. i < j \<longrightarrow> name j \<noteq> name i) \<longrightarrow>
          map_of d (KStr (name i)) = Some (JStr (link i))"
    by auto
  have "form_dataset_resources_lookup net ident key cat w =
          (Inr d, w\<lparr>requests := requests w @ [metadata_request ident key cat]\<rparr>)"
    using meta present assms(5) d(1) by (simp add: form_dataset_resources_lookup_def)
  with d(2-4) show ?thesis by blast
qed

theorem resolve_mapping_witness:
  "form_dataset_resources_lookup (scripted [Inr (json_response 200 example_body)])
      ''billed-consumption-data'' None COCT_CKAN_URL new_world =
     (Inr [(KStr ''a'', JStr ''http://x/c.csv''), (KStr ''b-report'', JStr ''http://x/b.csv'')],
      \<lparr>requests = [metadata_request ''billed-consumption-data'' None COCT_CKAN_URL],
       sleeps = [], files = []\<rparr>)"
  using resolve_mapping_keys_and_last_write_wins
    [of "scripted [Inr (json_response 200 example_body)]" new_world "''billed-consumption-data''"
        None COCT_CKAN_URL "json_response 200 example_body" example_body
        "JObj [(''name'', JStr ''billed-consumption-data''), (''resources'', JArr example_resources)]"
        example_resources "\<lambda>i. [''a'', ''b-report'', ''a''] ! i"
        "\<lambda>i. [''http://x/a.csv'', ''http://x/b.csv'', ''http://x/c.csv''] ! i"]
  by (simp add: form_dataset_resources_lookup_def get_dataset_metadata_def session_get_def
      resp_json_def scripted_def json_response_def example_body_def example_resources_def
      new_world_def NAME_FIELD_def URL_FIELD_def RESOURCES_FIELD_def)

text \<open>
  Claim C5. When the metadata request is answered with status 404, fetching the metadata
  fails with the error whose message names the dataset and the catalogue URL, after that
  single request; the resolver fails with the same error, and the program stops there:
  the metadata request is the only request it issues.
\<close>

theorem not_found_fails_without_retry_or_download:
  assumes "net (length (requests w)) (metadata_request ident key cat) = Inr resp"
    and "status_code resp = 404"
  shows "get_dataset_metadata net ident key cat w =
      (Inl (RuntimeError (not_found_message ident cat)),
       w\<lparr>requests := requests w @ [metadata_request ident key cat]\<rparr>) \<and>
    form_dataset_resources_lookup net ident key cat w =
      (Inl (RuntimeError (not_found_message ident cat)),
       w\<lparr>requests := requests w @ [metadata_request ident key cat]\<rparr>) \<and>
    (\<exists>a b c. not_found_message ident cat = a @ ident @ b @ cat @ c) \<and>
    (w = new_world \<and> dir_exists p (destination_dir a) \<and> dataset_id a = ident \<and>
       ckan_api_key a = key \<and> ckan_url a = cat \<longrightarrow>
     main net p a =
       (Inl (RuntimeError (not_found_message ident cat)),
        new_world\<lparr>requests := [metadata_request ident key cat]\<rparr>))"
proof -
  have meta: "get_dataset_metadata net ident key cat w =
      (Inl (RuntimeError (not_found_message ident cat)),
       w\<lparr>requests := requests w @ [metadata_request ident key cat]\<rparr>)"
    using assms by (simp add: get_dataset_metadata_def session_get_def)
  then have lookup: "form_dataset_resources_lookup net ident key cat w =
      (Inl (RuntimeError (not_found_message ident cat)),
       w\<lparr>requests := requests w @ [metadata_request ident key cat]\<rparr>)"
    by (simp add: form_dataset_resources_lookup_def)
  have "not_found_message ident cat =
          [CHR 0x27] @ ident @ ([CHR 0x27] @ '' doesn't exist on '') @ cat @ ''!''"
    by (simp add: not_found_message_def)
  then have msg: "\<exists>a b c. not_found_message ident cat = a @ ident @ b @ cat @ c"
    by blast
  have "main net p a =
       (Inl (RuntimeError (not_found_message ident cat)),
        new_world\<lparr>requests := [metadata_request ident key cat]\<rparr>)"
    if "w = new_world" "dir_exists p (destination_dir a)" "dataset_id a = ident"
       "ckan_api_key a = key" "ckan_url a = cat"
    using lookup that by (simp add: main_def new_world_def)
  with meta lookup msg show ?thesis by blast
qed

theorem not_found_fails_witness:
  "main (scripted not_found_script) test_platform test_args =
     (Inl (RuntimeError
        (CHR 0x27 # ''billed-consumption-data'' @ CHR 0x27 #
           '' doesn't exist on https://cctdata.co.za/data-catalogue!'')),
      \<lparr>requests = [metadata_request ''billed-consumption-data'' None COCT_CKAN_URL],
       sleeps = [], files = []\<rparr>)"
  using not_found_fails_without_retry_or_download
    [of "scripted not_found_script" new_world "''billed-consumption-data''" None COCT_CKAN_URL
        "ok_response 404 ''Not found''" test_platform test_args]
  by (simp add: scripted_def not_found_script_def new_world_def ok_response_def test_platform_def
      test_args_def not_found_message_def COCT_CKAN_URL_def)

text \<open>
  Claim C6. When the metadata request is answered with a status other than 200 and 404,
  fetching the metadata raises nothing and returns \<^verbatim>\<open>None\<close>; the resolver then fails
  with an error whose message differs from every message of the 404 error, and the body
  is never read as JSON: the outcome is the same whatever the body is, also where
  reading it as JSON would fail.
\<close>

theorem unexpected_status_is_unavailable:
  assumes "net (length (requests w)) (metadata_request ident key cat) = Inr resp"
    and "status_code resp \<noteq> 200" and "status_code resp \<noteq> 404"
  shows "get_dataset_metadata net ident key cat w =
      (Inr JNull, w\<lparr>requests := requests w @ [metadata_request ident key cat]\<rparr>) \<and>
    form_dataset_resources_lookup net ident key cat w =
      (Inl (RuntimeError (unknown_message ident)),
       w\<lparr>requests := requests w @ [metadata_request ident key cat]\<rparr>) \<and>
    unknown_message ident \<noteq> not_found_message ident' cat' \<and>
    fst (form_dataset_resources_lookup net ident key cat w) \<noteq> Inl JSONDecodeError"
proof -
  have meta: "get_dataset_metadata net ident key cat w =
      (Inr JNull, w\<lparr>requests := requests w @ [metadata_request ident key cat]\<rparr>)"
    using assms by (simp add: get_dataset_metadata_def session_get_def)
  then have lookup: "form_dataset_resources_lookup net ident key cat w =
      (Inl (RuntimeError (unknown_message ident)),
       w\<lparr>requests := requests w @ [metadata_request ident key cat]\<rparr>)"
    by (simp add: form_dataset_resources_lookup_def)
  have "unknown_message ident \<noteq> not_found_message ident' cat'"
    by (simp add: unknown_message_def not_found_message_def)
  with meta lookup show ?thesis by simp
qed

theorem unexpected_status_witness:
  "json_body (ok_response 500 ''<html>Internal Server Error</html>'') = None \<and>
   get_dataset_metadata (scripted server_error_script) ''billed-consumption-data'' None
      COCT_CKAN_URL new_world =
     (Inr JNull,
      \<lparr>requests = [metadata_request ''billed-consumption-data'' None COCT_CKAN_URL],
       sleeps = [], files = []\<rparr>) \<and>
   form_dataset_resources_lookup (scripted server_error_script) ''billed-consumption-data'' None
      COCT_CKAN_URL new_world =
     (Inl (RuntimeError
        (''I don't know what to do with '' @ CHR 0x27 # ''billed-consumption-data'' @ CHR 0x27 #
           '' - it doesn't exist'')),
      \<lparr>requests = [metadata_request ''billed-consumption-data'' None COCT_CKAN_URL],
       sleeps = [], files = []\<rparr>)"
  using unexpected_status_is_unavailable
    [of "scripted server_error_script" new_world "''billed-consumption-data''" None COCT_CKAN_URL
        "ok_response 500 ''<html>Internal Server Error</html>''"]
  by (simp add: scripted_def server_error_script_def new_world_def ok_response_def
      unknown_message_def)

text \<open>
  Claim C10. With status 200, a JSON object without a \<open>result\<close> field makes the
  resolver fail with \<^verbatim>\<open>KeyError\<close>; so does a \<open>resources\<close> array of descriptor objects
  (names, where present, being strings) in which some descriptor lacks its name or its
  URL. In both cases the error is neither of the two \<^verbatim>\<open>RuntimeError\<close>s of the resolver,
  and neither a mapping nor \<^verbatim>\<open>None\<close> is returned.
\<close>

theorem malformed_metadata_raises_key_error:
  assumes "net (length (requests w)) (metadata_request ident key cat) = Inr resp"
    and "status_code resp = 200"
    and "json_body resp = Some body"
  shows "(\<forall>kvs. body = JObj kvs \<and> map_of kvs ''result'' = None \<longrightarrow>
        get_dataset_metadata net ident key cat w =
          (Inl (KeyError ''result''), w\<lparr>requests := requests w @ [metadata_request ident key cat]\<rparr>) \<and>
        form_dataset_resources_lookup net ident key cat w =
          (Inl (KeyError ''result''), w\<lparr>requests := requests w @ [metadata_request ident key cat]\<rparr>)) \<and>
    (py_getitem body ''result'' = Inr meta \<and>
     py_getitem meta RESOURCES_FIELD = Inr (JArr rs) \<and>
     (\<forall>r\<in>set rs. \<exists>fields. r = JObj fields) \<and>
     (\<forall>r\<in>set rs. \<forall>n. py_getitem r NAME_FIELD = Inr n \<longrightarrow> (\<exists>s. n = JStr s)) \<and>
     (\<exists>r\<in>set rs. py_getitem r NAME_FIELD = Inl (KeyError NAME_FIELD) \<or>
                  py_getitem r URL_FIELD = Inl (KeyError URL_FIELD)) \<longrightarrow>
        form_dataset_resources_lookup net ident key cat w =
          (Inl (KeyError NAME_FIELD), w\<lparr>requests := requests w @ [metadata_request ident key cat]\<rparr>) \<or>
        form_dataset_resources_lookup net ident key cat w =
          (Inl (KeyError URL_FIELD), w\<lparr>requests := requests w @ [metadata_request ident key cat]\<rparr>))"
proof -
  let ?w1 = "w\<lparr>requests := requests w @ [metadata_request ident key cat]\<rparr>"
  have meta: "get_dataset_metadata net ident key cat w = (py_getitem body ''result'', ?w1)"
    using assms by (simp add: get_dataset_metadata_def session_get_def resp_json_def)
  have a: "get_dataset_metadata net ident key cat w = (Inl (KeyError ''result''), ?w1) \<and>
        form_dataset_resources_lookup net ident key cat w = (Inl (KeyError ''result''), ?w1)"
    if "body = JObj kvs" "map_of kvs ''result'' = None" for kvs
    using meta that by (simp add: form_dataset_resources_lookup_def)
  have b: "form_dataset_resources_lookup net ident key cat w = (Inl (KeyError NAME_FIELD), ?w1) \<or>
        form_dataset_resources_lookup net ident key cat w = (Inl (KeyError URL_FIELD), ?w1)"
    if res: "py_getitem body ''result'' = Inr meta"
      and rs: "py_getitem meta RESOURCES_FIELD = Inr (JArr rs)"
      and objs: "\<forall>r\<in>set rs. \<exists>fields. r = JObj fields"
      and names: "\<forall>r\<in>set rs. \<forall>n. py_getitem r NAME_FIELD = Inr n \<longrightarrow> (\<exists>s. n = JStr s)"
      and bad: "\<exists>r\<in>set rs. py_getitem r NAME_FIELD = Inl (KeyError NAME_FIELD) \<or>
                  py_getitem r URL_FIELD = Inl (KeyError URL_FIELD)"
  proof -
    have present: "meta \<noteq> JNull" using rs by auto
    have "form_dataset_resources_lookup net ident key cat w = (resources_comprehension rs [], ?w1)"
      using meta res rs present by (simp add: form_dataset_resources_lookup_def)
    with resources_comprehension_missing_field [OF objs names bad, of "[]"]
    show ?thesis by auto
  qed
  from a b show ?thesis by blast
qed

theorem malformed_metadata_witness:
  "form_dataset_resources_lookup (scripted [Inr (json_response 200 body_without_result)])
      ''billed-consumption-data'' None COCT_CKAN_URL new_world =
     (Inl (KeyError ''result''),
      \<lparr>requests = [metadata_request ''billed-consumption-data'' None COCT_CKAN_URL],
       sleeps = [], files = []\<rparr>) \<and>
   form_dataset_resources_lookup (scripted [Inr (json_response 200 body_with_nameless_resource)])
      ''billed-consumption-data'' None COCT_CKAN_URL new_world =
     (Inl (KeyError ''name''),
      \<lparr>requests = [metadata_request ''billed-consumption-data'' None COCT_CKAN_URL],
       sleeps = [], files = []\<rparr>)"
  using malformed_metadata_raises_key_error
    [of "scripted [Inr (json_response 200 body_without_result)]" new_world
        "''billed-consumption-data''" None COCT_CKAN_URL
        "json_response 200 body_without_result" body_without_result JNull "[]"]
    malformed_metadata_raises_key_error
    [of "scripted [Inr (json_response 200 body_with_nameless_resource)]" new_world
        "''billed-consumption-data''" None COCT_CKAN_URL
        "json_response 200 body_with_nameless_resource" body_with_nameless_resource
        "JObj [(''resources'',
           JArr [JObj [(''name'', JStr ''a''), (''url'', JStr ''http://x/a.csv'')],
                 JObj [(''id'', JStr ''r2''), (''url'', JStr ''http://x/b.csv'')]])]"
        "[JObj [(''name'', JStr ''a''), (''url'', JStr ''http://x/a.csv'')],
          JObj [(''id'', JStr ''r2''), (''url'', JStr ''http://x/b.csv'')]]"]
  by (simp add: form_dataset_resources_lookup_def get_dataset_metadata_def session_get_def
      resp_json_def scripted_def json_response_def body_without_result_def
      body_with_nameless_resource_def new_world_def NAME_FIELD_def URL_FIELD_def
      RESOURCES_FIELD_def)

section \<open>Claims about the request headers and the name filter\<close>

text \<open>
  Claim C8. Both call sites pass \<^verbatim>\<open>headers={"X-CKAN-API-Key": ckan_api_key}\<close>, and the
  session sends only the entries that have a value. So every request issued by the
  metadata fetch and by the resource fetcher is sent with the header
  \<^verbatim>\<open>X-CKAN-API-Key\<close> set to the API key when there is one, and with no such header
  when there is none. The metadata fetch issues exactly one request.
\<close>

theorem api_key_header_sent_only_when_present:
  "(\<forall>req \<in> set (drop (length (requests w))
        (requests (snd (get_dataset_metadata net ident key cat w)))).
      sent_headers (headers req) =
        (case key of None \<Rightarrow> [] | Some k \<Rightarrow> [(API_KEY_HEADER, k)])) \<and>
   (\<forall>req \<in> set (drop (length (requests w))
        (requests (snd (get_resource_file_with retries factor net u key w)))).
      sent_headers (headers req) =
        (case key of None \<Rightarrow> [] | Some k \<Rightarrow> [(API_KEY_HEADER, k)])) \<and>
   requests (snd (get_dataset_metadata net ident key cat w)) =
     requests w @ [metadata_request ident key cat]"
proof -
  obtain n where
    "requests (snd (get_resource_file_with retries factor net u key w)) =
       requests w @ replicate n (resource_request u key)"
    using get_resource_file_with_requests by blast
  then show ?thesis
    by (simp add: get_dataset_metadata_requests metadata_request_def resource_request_def
        split: option.splits)
qed

theorem api_key_header_sent_witness:
  "map (\<lambda>req. sent_headers (headers req))
     (requests (snd (get_dataset_metadata (scripted two_failures_then_500)
        ''billed-consumption-data'' (Some ''secret'') COCT_CKAN_URL new_world))) =
     [[(''X-CKAN-API-Key'', ''secret'')]] \<and>
   map (\<lambda>req. sent_headers (headers req))
     (requests (snd (get_resource_file (scripted two_failures_then_500)
        ''http://x/a.csv'' None new_world))) = [[], [], []]"
  using api_key_header_sent_only_when_present
    [of new_world "scripted two_failures_then_500" "''billed-consumption-data''" "Some ''secret''"
        COCT_CKAN_URL 3 10 "''http://x/a.csv''"]
    api_key_header_sent_only_when_present
    [of new_world "scripted two_failures_then_500" "''billed-consumption-data''" None
        COCT_CKAN_URL 3 10 "''http://x/a.csv''"]
  by (simp add: get_dataset_metadata_def get_resource_file_def get_resource_file_with_def
      RETRIES_def RETRY_DELAY_FACTOR_def session_get_def sleep_def scripted_def
      two_failures_then_500_def new_world_def ok_response_def metadata_request_def
      resource_request_def API_KEY_HEADER_def upt_rec numeral_3_eq_3)

text \<open>
  Claim C9. For the mapping with the resources \<open>a\<close>, \<open>b-report\<close> and \<open>ab\<close> and the
  filter \<^verbatim>\<open>^a\<close> (a pattern whose search succeeds exactly on the names that begin with
  \<open>a\<close>), the list of resources to download is \<open>a\<close> and \<open>ab\<close>; without a filter,
  every resource of every mapping is kept.
\<close>

theorem name_filter_keeps_matching_resources:
  assumes "re_compile p ''^a'' = Inr pat"
    and "\<forall>s. pat s = (take 1 s = ''a'')"
  shows "filtered_resources p (Some ''^a'') example_mapping =
      Inr [(KStr ''a'', JStr ''http://x/a.csv''), (KStr ''ab'', JStr ''http://x/c.csv'')] \<and>
    filtered_resources p None d = Inr d \<and>
    filtered_resources p (Some []) d = Inr d"
proof -
  have all: "resource_list None d = Inr d" for d
    by (induction d) auto
  have "filtered_resources p (Some ''^a'') example_mapping =
      Inr [(KStr ''a'', JStr ''http://x/a.csv''), (KStr ''ab'', JStr ''http://x/c.csv'')]"
    using assms by (simp add: filtered_resources_def compile_filter_def example_mapping_def)
  with all show ?thesis
    by (simp add: filtered_resources_def compile_filter_def)
qed

theorem name_filter_witness:
  "filtered_resources test_platform (Some ''^a'') example_mapping =
      Inr [(KStr ''a'', JStr ''http://x/a.csv''), (KStr ''ab'', JStr ''http://x/c.csv'')] \<and>
   filtered_resources test_platform None example_mapping = Inr example_mapping"
  using name_filter_keeps_matching_resources
    [of test_platform "\<lambda>s. take 1 s = ''a''" example_mapping]
  by (simp add: test_platform_def anchored_literal_def)

end
